theory Spec2Isabelle
  imports Main
begin

section \<open>Values exchanged with the libraries\<close>

text \<open>
  The package is glue between four libraries: \<^verbatim>\<open>golang.org/x/crypto/ssh\<close>,
  \<^verbatim>\<open>database/sql\<close>, \<^verbatim>\<open>gorm.io/gorm\<close> and its postgres driver. The values that
  cross those boundaries are modelled here. Pointers (\<^verbatim>\<open>*ssh.Client\<close>, \<^verbatim>\<open>*sql.DB\<close>,
  \<^verbatim>\<open>*gorm.DB\<close>) are identities; Go's \<^verbatim>\<open>error\<close> is an opaque value carrying its
  message; Go's \<^verbatim>\<open>int\<close> and \<^verbatim>\<open>time.Duration\<close> are \<open>int\<close>, since the package does no
  arithmetic on them.
\<close>

datatype error = Error string

text \<open>
  A \<^verbatim>\<open>context.Context\<close> at the time of a call: the background context, which is never
  done, or a derived context together with the value of its \<^verbatim>\<open>Err()\<close> (\<open>None\<close>
  while it is live, the cancellation or deadline error once it is done).
\<close>

datatype Context = Background | Ctx nat "error option"

fun Context_Err :: "Context \<Rightarrow> error option" where
  "Context_Err Background = None"
| "Context_Err (Ctx _ e) = e"

type_synonym Duration = int

datatype Signer = Signer string
datatype PublicKey = PublicKey string

datatype AuthMethod = PublicKeys "Signer list" | Password string

text \<open>
  \<^verbatim>\<open>ssh.HostKeyCallback\<close> is a function from host name, remote address and presented key
  to an error (\<^verbatim>\<open>nil\<close> accepts the key). The constructors are the library's two stock
  policies and \<open>HostKeyCallback_apply\<close> is what each of them does when called:
  \<^verbatim>\<open>InsecureIgnoreHostKey()\<close> returns \<^verbatim>\<open>nil\<close> for every key, \<^verbatim>\<open>FixedHostKey(k)\<close> accepts
  \<^verbatim>\<open>k\<close> only.
\<close>

datatype HostKeyCallback = InsecureIgnoreHostKey | FixedHostKey PublicKey

fun HostKeyCallback_apply :: "HostKeyCallback \<Rightarrow> string \<Rightarrow> string \<Rightarrow> PublicKey \<Rightarrow> error option" where
  "HostKeyCallback_apply InsecureIgnoreHostKey hostname remote key = None"
| "HostKeyCallback_apply (FixedHostKey k) hostname remote key =
     (if key = k then None else Some (Error ''ssh: host key mismatch''))"

record ClientConfig =
  User :: string
  Auth :: "AuthMethod list"
  HostKeyCallback :: HostKeyCallback

datatype ssh_Client = SSHClient nat
datatype net_Conn = Conn nat
datatype sql_DB = SqlDB nat

record gorm_DB =
  gorm_id :: nat
  Statement_Context :: Context

definition WithContext :: "gorm_DB \<Rightarrow> Context \<Rightarrow> gorm_DB" where
  "WithContext db ctx = db\<lparr>Statement_Context := ctx\<rparr>"

datatype LogLevel = Silent | LogError | Warn | Info

record gorm_Config =
  Logger :: LogLevel

datatype Dialector = postgres_Open string | postgres_New sql_DB

section \<open>The package's types\<close>

text \<open>
  The structs of \<^verbatim>\<open>client.go\<close> and of the tunnel file. A handle is one that
  \<^verbatim>\<open>Connect\<close> or \<^verbatim>\<open>ConnectViaSSH\<close> returned, so its pointer fields are not nil.
\<close>

record PG =
  DB :: gorm_DB

record ConnectConfig =
  DBHost :: string
  DBPort :: int
  DBUser :: string
  DBPassword :: string
  DBName :: string
  MaxIdleCon :: int

record PGViaSSH =
  DB :: gorm_DB
  SSHCon :: ssh_Client

record ViaSSHDialer =
  client :: ssh_Client

record ConnectViaSSHConfig =
  SSHHost :: string
  SSHPort :: int
  SSHUser :: string
  SSHPrivateKey :: string
  DBHost :: string
  DBPort :: int
  DBUser :: string
  DBPassword :: string
  DBName :: string
  MaxIdleCon :: int

section \<open>The process and the outside world\<close>

text \<open>
  Every call that leaves the package and has an effect is logged as an event, in call
  order. \<open>EvSetMaxOpenConns\<close> is \<^verbatim>\<open>(*sql.DB).SetMaxOpenConns\<close>, which the library offers
  next to \<^verbatim>\<open>SetMaxIdleConns\<close>.
\<close>

datatype event =
    EvSSHDial string string ClientConfig
  | EvSQLRegister string ViaSSHDialer
  | EvSQLOpen string string
  | EvGormOpen Dialector gorm_Config
  | EvSetMaxIdleConns sql_DB int
  | EvSetMaxOpenConns sql_DB int
  | EvPingContext sql_DB Context
  | EvSQLClose sql_DB
  | EvSSHClose ssh_Client
  | EvClientDial ssh_Client string string

text \<open>
  The process state the package touches: the driver table of \<^verbatim>\<open>database/sql\<close>
  (\<^verbatim>\<open>drivers map[string]driver.Driver\<close>, which other packages also fill) and the log
  of effects.
\<close>

datatype Driver = DriverViaSSH ViaSSHDialer | DriverOther string

record world =
  drivers :: "string \<rightharpoonup> Driver"
  trace :: "event list"

text \<open>
  What the libraries answer is not decided by this package: it is a parameter. Each
  answer may depend on everything that happened before (the log) and on the arguments.
\<close>

record libs =
  ParsePrivateKey_result :: "string \<Rightarrow> error + Signer"
  Dial_result :: "event list \<Rightarrow> string \<Rightarrow> string \<Rightarrow> ClientConfig \<Rightarrow> error + ssh_Client"
  sql_Open_result :: "event list \<Rightarrow> string \<Rightarrow> string \<Rightarrow> error + sql_DB"
  gorm_Open_result :: "event list \<Rightarrow> Dialector \<Rightarrow> gorm_Config \<Rightarrow> error + gorm_DB"
  DB_result :: "event list \<Rightarrow> gorm_DB \<Rightarrow> error + sql_DB"
  PingContext_result :: "event list \<Rightarrow> sql_DB \<Rightarrow> Context \<Rightarrow> error option"
  sql_Close_result :: "event list \<Rightarrow> sql_DB \<Rightarrow> error option"
  ssh_Close_result :: "event list \<Rightarrow> ssh_Client \<Rightarrow> error option"
  Client_Dial_result :: "event list \<Rightarrow> ssh_Client \<Rightarrow> string \<Rightarrow> string \<Rightarrow> error + net_Conn"

definition log :: "event \<Rightarrow> world \<Rightarrow> world" where
  "log ev w = w\<lparr>trace := trace w @ [ev]\<rparr>"

text \<open>A Go call either returns or panics.\<close>

datatype 'a outcome = Return 'a | Panic string

section \<open>Library calls\<close>

definition ssh_ParsePrivateKey :: "libs \<Rightarrow> string \<Rightarrow> error + Signer" where
  "ssh_ParsePrivateKey L pemBytes = ParsePrivateKey_result L pemBytes"

definition ssh_Dial ::
  "libs \<Rightarrow> string \<Rightarrow> string \<Rightarrow> ClientConfig \<Rightarrow> world \<Rightarrow> (error + ssh_Client) \<times> world" where
  "ssh_Dial L network addr config w =
     (Dial_result L (trace w) network addr config, log (EvSSHDial network addr config) w)"

text \<open>
  \<^verbatim>\<open>sql.Register\<close> of \<^verbatim>\<open>database/sql\<close>: it panics when the name is already in the driver
  table and stores the driver otherwise (its other panic, a nil driver, cannot arise
  from a composite literal).
\<close>

definition sql_Register :: "string \<Rightarrow> ViaSSHDialer \<Rightarrow> world \<Rightarrow> unit outcome \<times> world" where
  "sql_Register name driver w =
     (let w' = log (EvSQLRegister name driver) w in
      case drivers w name of
        Some dup \<Rightarrow> (Panic (''sql: Register called twice for driver '' @ name), w')
      | None \<Rightarrow> (Return (), w'\<lparr>drivers := (drivers w)(name \<mapsto> DriverViaSSH driver)\<rparr>))"

definition sql_Open :: "libs \<Rightarrow> string \<Rightarrow> string \<Rightarrow> world \<Rightarrow> (error + sql_DB) \<times> world" where
  "sql_Open L driverName dataSourceName w =
     (sql_Open_result L (trace w) driverName dataSourceName,
      log (EvSQLOpen driverName dataSourceName) w)"

definition gorm_Open ::
  "libs \<Rightarrow> Dialector \<Rightarrow> gorm_Config \<Rightarrow> world \<Rightarrow> (error + gorm_DB) \<times> world" where
  "gorm_Open L dialector config w =
     (gorm_Open_result L (trace w) dialector config, log (EvGormOpen dialector config) w)"

text \<open>\<^verbatim>\<open>(*gorm.DB).DB()\<close> hands out the pool behind the handle; it has no effect.\<close>

definition gorm_DB_DB :: "libs \<Rightarrow> gorm_DB \<Rightarrow> world \<Rightarrow> error + sql_DB" where
  "gorm_DB_DB L db w = DB_result L (trace w) db"

definition sql_DB_SetMaxIdleConns :: "sql_DB \<Rightarrow> int \<Rightarrow> world \<Rightarrow> world" where
  "sql_DB_SetMaxIdleConns db n w = log (EvSetMaxIdleConns db n) w"

definition sql_DB_PingContext :: "libs \<Rightarrow> sql_DB \<Rightarrow> Context \<Rightarrow> world \<Rightarrow> error option \<times> world" where
  "sql_DB_PingContext L db ctx w =
     (PingContext_result L (trace w) db ctx, log (EvPingContext db ctx) w)"

text \<open>
  \<^verbatim>\<open>(*sql.DB).Ping()\<close> of \<^verbatim>\<open>database/sql\<close> is
  \<^verbatim>\<open>db.PingContext(context.Background())\<close>.
\<close>

definition sql_DB_Ping :: "libs \<Rightarrow> sql_DB \<Rightarrow> world \<Rightarrow> error option \<times> world" where
  "sql_DB_Ping L db w = sql_DB_PingContext L db Background w"

definition sql_DB_Close :: "libs \<Rightarrow> sql_DB \<Rightarrow> world \<Rightarrow> error option \<times> world" where
  "sql_DB_Close L db w = (sql_Close_result L (trace w) db, log (EvSQLClose db) w)"

definition ssh_Client_Close :: "libs \<Rightarrow> ssh_Client \<Rightarrow> world \<Rightarrow> error option \<times> world" where
  "ssh_Client_Close L c w = (ssh_Close_result L (trace w) c, log (EvSSHClose c) w)"

definition ssh_Client_Dial ::
  "libs \<Rightarrow> ssh_Client \<Rightarrow> string \<Rightarrow> string \<Rightarrow> world \<Rightarrow> (error + net_Conn) \<times> world" where
  "ssh_Client_Dial L c n addr w =
     (Client_Dial_result L (trace w) c n addr, log (EvClientDial c n addr) w)"

subsection \<open>Formatting\<close>

text \<open>The verb \<^verbatim>\<open>%d\<close> of \<^verbatim>\<open>fmt.Sprintf\<close> on an \<^verbatim>\<open>int\<close>: decimal, with a minus sign.\<close>

fun fmt_nat :: "nat \<Rightarrow> string" where
  "fmt_nat n =
     (if n < 10 then [''0123456789'' ! n]
      else fmt_nat (n div 10) @ [''0123456789'' ! (n mod 10)])"

declare fmt_nat.simps [simp del]

definition fmt_d :: "int \<Rightarrow> string" where
  "fmt_d i = (if i < 0 then ''-'' @ fmt_nat (nat (- i)) else fmt_nat (nat i))"

section \<open>The tunnel path\<close>

definition PGViaSSH_Ping :: "libs \<Rightarrow> PGViaSSH \<Rightarrow> Context \<Rightarrow> world \<Rightarrow> error option \<times> world" where
  "PGViaSSH_Ping L pg ctx w =
     (case gorm_DB_DB L (WithContext (PGViaSSH.DB pg) ctx) w of
        Inl err \<Rightarrow> (Some err, w)
      | Inr sqlDB \<Rightarrow>
          (case sql_DB_Ping L sqlDB w of
             (Some err, w1) \<Rightarrow> (Some err, w1)
           | (None, w1) \<Rightarrow> (None, w1)))"

definition PGViaSSH_Close :: "libs \<Rightarrow> PGViaSSH \<Rightarrow> Context \<Rightarrow> world \<Rightarrow> error option \<times> world" where
  "PGViaSSH_Close L pg ctx w =
     (case gorm_DB_DB L (WithContext (PGViaSSH.DB pg) ctx) w of
        Inl err \<Rightarrow> (Some err, w)
      | Inr sqlDB \<Rightarrow>
          (case sql_DB_Close L sqlDB w of
             (Some err, w1) \<Rightarrow> (Some err, w1)
           | (None, w1) \<Rightarrow>
               (case ssh_Client_Close L (SSHCon pg) w1 of
                  (Some err, w2) \<Rightarrow> (Some err, w2)
                | (None, w2) \<Rightarrow> (None, w2))))"

definition ViaSSHDialer_Dial ::
  "libs \<Rightarrow> ViaSSHDialer \<Rightarrow> string \<Rightarrow> string \<Rightarrow> world \<Rightarrow> (error + net_Conn) \<times> world" where
  "ViaSSHDialer_Dial L self network address w =
     ssh_Client_Dial L (client self) network address w"

definition ViaSSHDialer_DialTimeout ::
  "libs \<Rightarrow> ViaSSHDialer \<Rightarrow> string \<Rightarrow> string \<Rightarrow> Duration \<Rightarrow> world
     \<Rightarrow> (error + net_Conn) \<times> world" where
  "ViaSSHDialer_DialTimeout L self network address timeout w =
     ssh_Client_Dial L (client self) network address w"

definition ConnectViaSSH ::
  "libs \<Rightarrow> ConnectViaSSHConfig \<Rightarrow> world
     \<Rightarrow> (PGViaSSH option \<times> error option) outcome \<times> world" where
  "ConnectViaSSH L conf w =
     (case ssh_ParsePrivateKey L (SSHPrivateKey conf) of
        Inl err \<Rightarrow> (Return (None, Some err), w)
      | Inr signer \<Rightarrow>
          let sshConfig = \<lparr>User = SSHUser conf,
                           Auth = [PublicKeys [signer]],
                           HostKeyCallback = InsecureIgnoreHostKey\<rparr>
          in
          (case ssh_Dial L ''tcp'' (SSHHost conf @ '':'' @ fmt_d (SSHPort conf)) sshConfig w of
             (Inl err, w1) \<Rightarrow> (Return (None, Some err), w1)
           | (Inr sshcon, w1) \<Rightarrow>
               (case sql_Register ''postgres+ssh'' \<lparr>client = sshcon\<rparr> w1 of
                  (Panic msg, w2) \<Rightarrow> (Panic msg, w2)
                | (Return u, w2) \<Rightarrow>
                    let dsn = ''host='' @ ConnectViaSSHConfig.DBHost conf
                            @ '' port='' @ fmt_d (ConnectViaSSHConfig.DBPort conf)
                            @ '' user='' @ ConnectViaSSHConfig.DBUser conf
                            @ '' password='' @ ConnectViaSSHConfig.DBPassword conf
                            @ '' dbname='' @ ConnectViaSSHConfig.DBName conf
                            @ '' application_name=xl_pgclient TimeZone=UTC''
                    in
                    (case sql_Open L ''postgres+ssh'' dsn w2 of
                       (Inl err, w3) \<Rightarrow> (Return (None, Some err), w3)
                     | (Inr sqldb, w3) \<Rightarrow>
                         (case gorm_Open L (postgres_New sqldb) \<lparr>Logger = Silent\<rparr> w3 of
                            (Inl err, w4) \<Rightarrow> (Return (None, Some err), w4)
                          | (Inr db, w4) \<Rightarrow>
                              (case gorm_DB_DB L db w4 of
                                 Inl err \<Rightarrow> (Return (None, Some err), w4)
                               | Inr sqlDB \<Rightarrow>
                                   let w5 = sql_DB_SetMaxIdleConns sqlDB
                                              (ConnectViaSSHConfig.MaxIdleCon conf) w4
                                   in (Return (Some \<lparr>DB = db, SSHCon = sshcon\<rparr>, None), w5)))))))"

section \<open>The direct path\<close>

definition PG_Ping :: "libs \<Rightarrow> PG \<Rightarrow> Context \<Rightarrow> world \<Rightarrow> error option \<times> world" where
  "PG_Ping L pg ctx w =
     (case gorm_DB_DB L (WithContext (PG.DB pg) ctx) w of
        Inl err \<Rightarrow> (Some err, w)
      | Inr sqlDB \<Rightarrow>
          (case sql_DB_Ping L sqlDB w of
             (Some err, w1) \<Rightarrow> (Some err, w1)
           | (None, w1) \<Rightarrow> (None, w1)))"

definition PG_Close :: "libs \<Rightarrow> PG \<Rightarrow> Context \<Rightarrow> world \<Rightarrow> error option \<times> world" where
  "PG_Close L pg ctx w =
     (case gorm_DB_DB L (WithContext (PG.DB pg) ctx) w of
        Inl err \<Rightarrow> (Some err, w)
      | Inr sqlDB \<Rightarrow>
          (case sql_DB_Close L sqlDB w of
             (Some err, w1) \<Rightarrow> (Some err, w1)
           | (None, w1) \<Rightarrow> (None, w1)))"

definition Connect ::
  "libs \<Rightarrow> ConnectConfig \<Rightarrow> world \<Rightarrow> (PG option \<times> error option) \<times> world" where
  "Connect L conf w =
     (let dsn = ''host='' @ ConnectConfig.DBHost conf
              @ '' port='' @ fmt_d (ConnectConfig.DBPort conf)
              @ '' user='' @ ConnectConfig.DBUser conf
              @ '' password='' @ ConnectConfig.DBPassword conf
              @ '' dbname='' @ ConnectConfig.DBName conf
              @ '' application_name=xl_pgclient TimeZone=UTC''
      in
      case gorm_Open L (postgres_Open dsn) \<lparr>Logger = Silent\<rparr> w of
        (Inl err, w1) \<Rightarrow> ((None, Some err), w1)
      | (Inr db, w1) \<Rightarrow>
          (case gorm_DB_DB L db w1 of
             Inl err \<Rightarrow> ((None, Some err), w1)
           | Inr sqlDB \<Rightarrow>
               let w2 = sql_DB_SetMaxIdleConns sqlDB (ConnectConfig.MaxIdleCon conf) w1
               in ((Some \<lparr>PG.DB = db\<rparr>, None), w2)))"

section \<open>Reading the log\<close>

text \<open>The events a call added: the log after it, without the log before it.\<close>

definition since :: "world \<Rightarrow> world \<Rightarrow> event list" where
  "since w w' = drop (length (trace w)) (trace w')"

fun reg_name :: "event \<Rightarrow> string list" where
  "reg_name (EvSQLRegister name d) = [name]"
| "reg_name _ = []"

text \<open>The driver names passed to \<^verbatim>\<open>sql.Register\<close>, in call order.\<close>

definition registered_names :: "event list \<Rightarrow> string list" where
  "registered_names tr = concat (map reg_name tr)"

fun dial_config :: "event \<Rightarrow> ClientConfig list" where
  "dial_config (EvSSHDial network addr config) = [config]"
| "dial_config _ = []"

text \<open>The client configurations passed to \<^verbatim>\<open>ssh.Dial\<close>, in call order.\<close>

definition dial_configs :: "event list \<Rightarrow> ClientConfig list" where
  "dial_configs tr = concat (map dial_config tr)"

text \<open>
  Three expressions of \<^verbatim>\<open>ConnectViaSSH\<close>, named so that statements can mention them: the
  address it dials, the client configuration it builds from the parsed key, and the
  connection string.
\<close>

definition ssh_addr_of :: "ConnectViaSSHConfig \<Rightarrow> string" where
  "ssh_addr_of conf = SSHHost conf @ '':'' @ fmt_d (SSHPort conf)"

definition sshConfig_of :: "ConnectViaSSHConfig \<Rightarrow> Signer \<Rightarrow> ClientConfig" where
  "sshConfig_of conf signer =
     \<lparr>User = SSHUser conf, Auth = [PublicKeys [signer]],
      HostKeyCallback = InsecureIgnoreHostKey\<rparr>"

definition dsn_of :: "ConnectViaSSHConfig \<Rightarrow> string" where
  "dsn_of conf =
     ''host='' @ ConnectViaSSHConfig.DBHost conf
     @ '' port='' @ fmt_d (ConnectViaSSHConfig.DBPort conf)
     @ '' user='' @ ConnectViaSSHConfig.DBUser conf
     @ '' password='' @ ConnectViaSSHConfig.DBPassword conf
     @ '' dbname='' @ ConnectViaSSHConfig.DBName conf
     @ '' application_name=xl_pgclient TimeZone=UTC''"

section \<open>Example processes\<close>

text \<open>
  Libraries that answer every call with success. The key parser accepts one key, the
  health check honours its context, and fresh handles are numbered by the length of the
  log.
\<close>

definition libs_up :: libs where
  "libs_up =
     \<lparr>ParsePrivateKey_result =
        (\<lambda>k. if k = ''good-key'' then Inr (Signer k) else Inl (Error ''ssh: no key found'')),
      Dial_result = (\<lambda>h n a c. Inr (SSHClient (length h))),
      sql_Open_result = (\<lambda>h n d. Inr (SqlDB (length h))),
      gorm_Open_result =
        (\<lambda>h d c. Inr \<lparr>gorm_id = length h, Statement_Context = Background\<rparr>),
      DB_result = (\<lambda>h db. Inr (SqlDB (gorm_id db))),
      PingContext_result = (\<lambda>h db ctx. Context_Err ctx),
      sql_Close_result = (\<lambda>h db. None),
      ssh_Close_result = (\<lambda>h c. None),
      Client_Dial_result = (\<lambda>h c n a. Inr (Conn (length h)))\<rparr>"

text \<open>The same libraries with a database that cannot be reached through the tunnel.\<close>

definition libs_db_down :: libs where
  "libs_db_down =
     libs_up\<lparr>gorm_Open_result := (\<lambda>h d c. Inl (Error ''failed to connect''))\<rparr>"

text \<open>The same libraries with both close calls failing, each with its own error.\<close>

definition libs_close_fails :: libs where
  "libs_close_fails =
     libs_up\<lparr>sql_Close_result := (\<lambda>h db. Some (Error ''sql: close failed'')),
             ssh_Close_result := (\<lambda>h c. Some (Error ''ssh: close failed''))\<rparr>"

text \<open>The same libraries with a tunnel whose close fails while the pool closes cleanly.\<close>

definition libs_ssh_close_fails :: libs where
  "libs_ssh_close_fails =
     libs_up\<lparr>ssh_Close_result := (\<lambda>h c. Some (Error ''ssh: close failed''))\<rparr>"

text \<open>A fresh process: \<^verbatim>\<open>lib/pq\<close> has registered its own driver, nothing else happened.\<close>

definition world0 :: world where
  "world0 = \<lparr>drivers = [''postgres'' \<mapsto> DriverOther ''pq''], trace = []\<rparr>"

definition conf_example :: ConnectViaSSHConfig where
  "conf_example =
     \<lparr>SSHHost = ''ssh.example.com'', SSHPort = 22, SSHUser = ''ssh_user'',
      SSHPrivateKey = ''good-key'',
      DBHost = ''localhost'', DBPort = 5432, DBUser = ''postgres'',
      DBPassword = ''your_password'', DBName = ''your_database'', MaxIdleCon = 10\<rparr>"

text \<open>The process after one successful \<^verbatim>\<open>ConnectViaSSH\<close>.\<close>

definition world1 :: world where
  "world1 = snd (ConnectViaSSH libs_up conf_example world0)"

definition conf_bad_key :: ConnectViaSSHConfig where
  "conf_bad_key = conf_example\<lparr>SSHPrivateKey := ''YOUR_PRIVATE_KEY_HERE''\<rparr>"

definition conf_direct :: ConnectConfig where
  "conf_direct =
     \<lparr>ConnectConfig.DBHost = ''localhost'', ConnectConfig.DBPort = 5432,
      ConnectConfig.DBUser = ''postgres'', ConnectConfig.DBPassword = ''your_password'',
      ConnectConfig.DBName = ''your_database'', ConnectConfig.MaxIdleCon = 10\<rparr>"

definition pg_example :: PGViaSSH where
  "pg_example =
     \<lparr>DB = \<lparr>gorm_id = 3, Statement_Context = Background\<rparr>, SSHCon = SSHClient 0\<rparr>"

definition ctx_cancelled :: Context where
  "ctx_cancelled = Ctx 1 (Some (Error ''context canceled''))"

section \<open>The construction steps\<close>

text \<open>The calls of \<^verbatim>\<open>ConnectViaSSH\<close>, in the order it makes them.\<close>

abbreviation key_parse :: "libs \<Rightarrow> ConnectViaSSHConfig \<Rightarrow> error + Signer" where
  "key_parse L conf \<equiv> ssh_ParsePrivateKey L (SSHPrivateKey conf)"

abbreviation tunnel_open ::
  "libs \<Rightarrow> ConnectViaSSHConfig \<Rightarrow> Signer \<Rightarrow> world \<Rightarrow> (error + ssh_Client) \<times> world" where
  "tunnel_open L conf signer w \<equiv>
     ssh_Dial L ''tcp'' (ssh_addr_of conf) (sshConfig_of conf signer) w"

abbreviation driver_registration :: "ssh_Client \<Rightarrow> world \<Rightarrow> unit outcome \<times> world" where
  "driver_registration sshcon w \<equiv> sql_Register ''postgres+ssh'' \<lparr>client = sshcon\<rparr> w"

abbreviation client_open ::
  "libs \<Rightarrow> ConnectViaSSHConfig \<Rightarrow> world \<Rightarrow> (error + sql_DB) \<times> world" where
  "client_open L conf w \<equiv> sql_Open L ''postgres+ssh'' (dsn_of conf) w"

abbreviation orm_wrap :: "libs \<Rightarrow> sql_DB \<Rightarrow> world \<Rightarrow> (error + gorm_DB) \<times> world" where
  "orm_wrap L sqldb w \<equiv> gorm_Open L (postgres_New sqldb) \<lparr>Logger = Silent\<rparr> w"

abbreviation pool_handle :: "libs \<Rightarrow> gorm_DB \<Rightarrow> world \<Rightarrow> error + sql_DB" where
  "pool_handle L db w \<equiv> gorm_DB_DB L db w"

section \<open>Unfolding\<close>

lemmas call_defs =
  ssh_ParsePrivateKey_def ssh_Dial_def sql_Register_def sql_Open_def gorm_Open_def
  gorm_DB_DB_def sql_DB_SetMaxIdleConns_def sql_DB_PingContext_def sql_DB_Ping_def
  sql_DB_Close_def ssh_Client_Close_def ssh_Client_Dial_def log_def

lemmas example_defs =
  libs_up_def libs_db_down_def libs_close_fails_def libs_ssh_close_fails_def world0_def
  conf_example_def conf_bad_key_def conf_direct_def pg_example_def ctx_cancelled_def

lemmas expr_defs = ssh_addr_of_def sshConfig_of_def dsn_of_def

section \<open>Dial with and without a timeout\<close>

text \<open>
  C4. For every network, address and timeout, \<^verbatim>\<open>DialTimeout\<close> returns exactly what
  \<^verbatim>\<open>Dial\<close> returns on the same tunnel session, and has the same effect: the timeout is
  not used.
\<close>

theorem DialTimeout_eq_Dial:
  "ViaSSHDialer_DialTimeout L self network address timeout w =
     ViaSSHDialer_Dial L self network address w"
  by (simp add: ViaSSHDialer_DialTimeout_def ViaSSHDialer_Dial_def)

section \<open>Opening the tunnel\<close>

text \<open>
  C3. When the private key does not parse, \<^verbatim>\<open>ConnectViaSSH\<close> returns a nil handle with
  the parser's error and the process is as it was before the call: no dial, no effect
  at all.
\<close>

theorem ConnectViaSSH_malformed_key:
  "ssh_ParsePrivateKey L (SSHPrivateKey conf) = Inl err \<Longrightarrow>
     ConnectViaSSH L conf w = (Return (None, Some err), w) \<and>
     since w (snd (ConnectViaSSH L conf w)) = []"
  by (simp add: ConnectViaSSH_def since_def)

theorem ConnectViaSSH_malformed_key_witness:
  "ssh_ParsePrivateKey libs_up (SSHPrivateKey conf_bad_key) = Inl (Error ''ssh: no key found'') \<and>
   ConnectViaSSH libs_up conf_bad_key world0 = (Return (None, Some (Error ''ssh: no key found'')), world0) \<and>
   since world0 (snd (ConnectViaSSH libs_up conf_bad_key world0)) = []"
proof -
  have h: "ssh_ParsePrivateKey libs_up (SSHPrivateKey conf_bad_key) = Inl (Error ''ssh: no key found'')"
    by (simp add: ssh_ParsePrivateKey_def libs_up_def conf_bad_key_def conf_example_def)
  show ?thesis
    using h ConnectViaSSH_malformed_key [OF h, of world0] by (simp add: since_def)
qed

text \<open>
  C5. When the key parses, \<^verbatim>\<open>ConnectViaSSH\<close> dials the tunnel exactly once, and the
  configuration of that dial has one authentication method, the public key made from the
  parsed signer (so no password), and a host-key callback that accepts every key from
  every host.
\<close>

theorem ConnectViaSSH_auth_and_host_key:
  assumes "ssh_ParsePrivateKey L (SSHPrivateKey conf) = Inr signer"
  shows "\<exists>config. dial_configs (since w (snd (ConnectViaSSH L conf w))) = [config]
           \<and> User config = SSHUser conf
           \<and> Auth config = [PublicKeys [signer]]
           \<and> (\<forall>hostname remote key.
                 HostKeyCallback_apply (HostKeyCallback config) hostname remote key = None)"
  using assms
  by (auto simp: ConnectViaSSH_def call_defs since_def dial_configs_def Let_def
           split: sum.splits prod.splits outcome.splits option.splits)



theorem ConnectViaSSH_auth_and_host_key_witness:
  "\<exists>config. dial_configs (since world0 (snd (ConnectViaSSH libs_up conf_example world0)))
               = [config]
     \<and> User config = SSHUser conf_example
     \<and> Auth config = [PublicKeys [Signer ''good-key'']]
     \<and> (\<forall>hostname remote key.
           HostKeyCallback_apply (HostKeyCallback config) hostname remote key = None)"
proof -
  have h: "key_parse libs_up conf_example = Inr (Signer ''good-key'')"
    by (simp add: call_defs example_defs)
  show ?thesis
    using ConnectViaSSH_auth_and_host_key [OF h, of world0] by simp
qed

section \<open>Closing the handle\<close>

text \<open>
  C1, as the claim states it, fails. With a pool whose close fails and a tunnel whose
  close would fail with another error, \<^verbatim>\<open>Close\<close> returns the pool's error, and the
  only call it made is the pool's close: the tunnel's close is not attempted.
\<close>

theorem Close_client_failure_counterexample:
  "gorm_DB_DB libs_close_fails (WithContext (PGViaSSH.DB pg_example) Background) world0 = Inr (SqlDB 3)
   \<and> fst (sql_DB_Close libs_close_fails (SqlDB 3) world0) = Some (Error ''sql: close failed'')
   \<and> fst (PGViaSSH_Close libs_close_fails pg_example Background world0)
        = Some (Error ''sql: close failed'')
   \<and> since world0 (snd (PGViaSSH_Close libs_close_fails pg_example Background world0))
        = [EvSQLClose (SqlDB 3)]
   \<and> EvSSHClose (SSHCon pg_example)
        \<notin> set (trace (snd (PGViaSSH_Close libs_close_fails pg_example Background world0)))"
  by (simp add: PGViaSSH_Close_def call_defs example_defs WithContext_def since_def)

text \<open>
  C1, amended. Once the pool handle is retrieved, \<^verbatim>\<open>Close\<close> closes the pool first. When
  that close fails, its error is returned and nothing else is called. When it succeeds,
  the tunnel is closed next and the result of that close is the result of \<^verbatim>\<open>Close\<close>.
\<close>

theorem Close_order_and_error:
  assumes "gorm_DB_DB L (WithContext (PGViaSSH.DB pg) ctx) w = Inr sqlDB"
  shows "(sql_DB_Close L sqlDB w = (Some err, w1) \<longrightarrow>
            PGViaSSH_Close L pg ctx w = (Some err, w1) \<and> since w w1 = [EvSQLClose sqlDB])
       \<and> (sql_DB_Close L sqlDB w = (None, w1) \<longrightarrow>
            PGViaSSH_Close L pg ctx w = ssh_Client_Close L (SSHCon pg) w1
            \<and> since w (snd (PGViaSSH_Close L pg ctx w))
                = [EvSQLClose sqlDB, EvSSHClose (SSHCon pg)])"
  using assms
  by (auto simp: PGViaSSH_Close_def call_defs since_def split: option.splits)

theorem Close_order_and_error_witness:
  "PGViaSSH_Close libs_close_fails pg_example Background world0
     = (Some (Error ''sql: close failed''), log (EvSQLClose (SqlDB 3)) world0)
   \<and> PGViaSSH_Close libs_ssh_close_fails pg_example Background world0
     = (Some (Error ''ssh: close failed''),
        log (EvSSHClose (SSHClient 0)) (log (EvSQLClose (SqlDB 3)) world0))
   \<and> since world0 (snd (PGViaSSH_Close libs_ssh_close_fails pg_example Background world0))
     = [EvSQLClose (SqlDB 3), EvSSHClose (SSHClient 0)]"
proof -
  have a: "gorm_DB_DB libs_close_fails (WithContext (PGViaSSH.DB pg_example) Background) world0
             = Inr (SqlDB 3)"
    by (simp add: call_defs example_defs WithContext_def)
  have b: "sql_DB_Close libs_close_fails (SqlDB 3) world0
             = (Some (Error ''sql: close failed''), log (EvSQLClose (SqlDB 3)) world0)"
    by (simp add: call_defs example_defs)
  have c: "gorm_DB_DB libs_ssh_close_fails (WithContext (PGViaSSH.DB pg_example) Background) world0
             = Inr (SqlDB 3)"
    by (simp add: call_defs example_defs WithContext_def)
  have d: "sql_DB_Close libs_ssh_close_fails (SqlDB 3) world0
             = (None, log (EvSQLClose (SqlDB 3)) world0)"
    by (simp add: call_defs example_defs)
  have e: "ssh_Client_Close libs_ssh_close_fails (SSHCon pg_example) (log (EvSQLClose (SqlDB 3)) world0)
             = (Some (Error ''ssh: close failed''),
                log (EvSSHClose (SSHClient 0)) (log (EvSQLClose (SqlDB 3)) world0))"
    by (simp add: call_defs example_defs)
  show ?thesis
    using Close_order_and_error [OF a, of "Error ''sql: close failed''" "log (EvSQLClose (SqlDB 3)) world0"]
          Close_order_and_error [OF c, of "Error ''sql: close failed''" "log (EvSQLClose (SqlDB 3)) world0"]
          b d e
    by (simp add: pg_example_def since_def log_def)
qed


section \<open>Driver registration\<close>

text \<open>
  C2, as the claim states it, fails. Two calls in one process, both reaching the
  registration, pass the same name to \<^verbatim>\<open>sql.Register\<close>.
\<close>

theorem driver_names_repeat_counterexample:
  "registered_names
     (trace (snd (ConnectViaSSH libs_up conf_example
                    (snd (ConnectViaSSH libs_up conf_example world0)))))
     = [''postgres+ssh'', ''postgres+ssh'']
   \<and> \<not> distinct (registered_names
          (trace (snd (ConnectViaSSH libs_up conf_example
                         (snd (ConnectViaSSH libs_up conf_example world0))))))"
  by (simp add: ConnectViaSSH_def call_defs example_defs registered_names_def Let_def)

lemma reached_registration_names:
  assumes "key_parse L conf = Inr signer"
      and "tunnel_open L conf signer w = (Inr sshcon, w1)"
  shows "registered_names (since w (snd (ConnectViaSSH L conf w))) = [''postgres+ssh'']"
  using assms
  by (auto simp: ConnectViaSSH_def call_defs expr_defs since_def registered_names_def Let_def
           split: sum.splits option.splits)

text \<open>
  C2, amended. Every call that reaches the registration passes the one name
  \<^verbatim>\<open>postgres+ssh\<close> to \<^verbatim>\<open>sql.Register\<close>, once; so any two such calls record the same name.
\<close>

theorem driver_name_is_constant:
  assumes "key_parse L conf = Inr signer"
      and "tunnel_open L conf signer w = (Inr sshcon, w1)"
      and "key_parse L' conf' = Inr signer'"
      and "tunnel_open L' conf' signer' w' = (Inr sshcon', w1')"
  shows "registered_names (since w (snd (ConnectViaSSH L conf w))) = [''postgres+ssh'']
       \<and> registered_names (since w' (snd (ConnectViaSSH L' conf' w')))
           = registered_names (since w (snd (ConnectViaSSH L conf w)))"
  using reached_registration_names [OF assms(1,2)] reached_registration_names [OF assms(3,4)]
  by simp

theorem driver_name_is_constant_witness:
  "registered_names (since world0 (snd (ConnectViaSSH libs_up conf_example world0)))
     = [''postgres+ssh'']
   \<and> registered_names (since world0 (snd (ConnectViaSSH libs_db_down conf_example world0)))
     = registered_names (since world0 (snd (ConnectViaSSH libs_up conf_example world0)))"
proof -
  have a: "key_parse libs_up conf_example = Inr (Signer ''good-key'')"
    by (simp add: call_defs example_defs)
  have b: "tunnel_open libs_up conf_example (Signer ''good-key'') world0
             = (Inr (SSHClient 0),
                log (EvSSHDial ''tcp'' (ssh_addr_of conf_example)
                       (sshConfig_of conf_example (Signer ''good-key''))) world0)"
    by (simp add: call_defs example_defs)
  have c: "key_parse libs_db_down conf_example = Inr (Signer ''good-key'')"
    by (simp add: call_defs example_defs)
  have d: "tunnel_open libs_db_down conf_example (Signer ''good-key'') world0
             = (Inr (SSHClient 0),
                log (EvSSHDial ''tcp'' (ssh_addr_of conf_example)
                       (sshConfig_of conf_example (Signer ''good-key''))) world0)"
    by (simp add: call_defs example_defs)
  show ?thesis
    using driver_name_is_constant [OF a b c d] by simp
qed


lemma reached_registration_event:
  assumes "key_parse L conf = Inr signer"
      and "tunnel_open L conf signer w = (Inr sshcon, w1)"
  shows "EvSQLRegister ''postgres+ssh'' \<lparr>client = sshcon\<rparr>
           \<in> set (since w (snd (ConnectViaSSH L conf w)))"
  using assms
  by (auto simp: ConnectViaSSH_def call_defs expr_defs since_def Let_def
           split: sum.splits option.splits)

lemma reached_registration_drivers:
  assumes "key_parse L conf = Inr signer"
      and "tunnel_open L conf signer w = (Inr sshcon, w1)"
  shows "''postgres+ssh'' \<in> dom (drivers (snd (ConnectViaSSH L conf w)))"
  using assms
  by (auto simp: ConnectViaSSH_def call_defs expr_defs Let_def
           split: sum.splits option.splits)

lemma registered_twice_panics:
  assumes "key_parse L conf = Inr signer"
      and "tunnel_open L conf signer w = (Inr sshcon, w1)"
      and "''postgres+ssh'' \<in> dom (drivers w)"
  shows "fst (ConnectViaSSH L conf w) = Panic ''sql: Register called twice for driver postgres+ssh''"
  using assms
  by (auto simp: ConnectViaSSH_def call_defs expr_defs Let_def
           split: sum.splits option.splits)

text \<open>
  C9. Every call that reaches the registration registers under \<^verbatim>\<open>postgres+ssh\<close>. After
  one such call the name is in the driver table, which nothing removes from; a later
  call in that process that reaches the registration panics in \<^verbatim>\<open>sql.Register\<close> and
  returns nothing.
\<close>

theorem second_registration_panics:
  assumes "key_parse L conf = Inr signer"
      and "tunnel_open L conf signer w = (Inr sshcon, w1)"
      and "dom (drivers (snd (ConnectViaSSH L conf w))) \<subseteq> dom (drivers w')"
      and "key_parse L conf' = Inr signer'"
      and "tunnel_open L conf' signer' w' = (Inr sshcon', w1')"
  shows "EvSQLRegister ''postgres+ssh'' \<lparr>client = sshcon\<rparr>
           \<in> set (since w (snd (ConnectViaSSH L conf w)))
       \<and> EvSQLRegister ''postgres+ssh'' \<lparr>client = sshcon'\<rparr>
           \<in> set (since w' (snd (ConnectViaSSH L conf' w')))
       \<and> fst (ConnectViaSSH L conf' w')
           = Panic ''sql: Register called twice for driver postgres+ssh''"
proof -
  have "''postgres+ssh'' \<in> dom (drivers w')"
    using reached_registration_drivers [OF assms(1,2)] assms(3) by blast
  then show ?thesis
    using reached_registration_event [OF assms(1,2)]
          reached_registration_event [OF assms(4,5)]
          registered_twice_panics [OF assms(4,5)]
    by simp
qed

lemma first_call_example:
  "ConnectViaSSH libs_up conf_example world0 =
     (Return (Some \<lparr>DB = \<lparr>gorm_id = 3, Statement_Context = Background\<rparr>,
                    SSHCon = SSHClient 0\<rparr>, None),
      \<lparr>drivers = [''postgres'' \<mapsto> DriverOther ''pq'',
                  ''postgres+ssh'' \<mapsto> DriverViaSSH \<lparr>client = SSHClient 0\<rparr>],
       trace = [EvSSHDial ''tcp'' (ssh_addr_of conf_example)
                  (sshConfig_of conf_example (Signer ''good-key'')),
                EvSQLRegister ''postgres+ssh'' \<lparr>client = SSHClient 0\<rparr>,
                EvSQLOpen ''postgres+ssh'' (dsn_of conf_example),
                EvGormOpen (postgres_New (SqlDB 2)) \<lparr>Logger = Silent\<rparr>,
                EvSetMaxIdleConns (SqlDB 3) 10]\<rparr>)"
  by (simp add: ConnectViaSSH_def call_defs expr_defs example_defs Let_def)

theorem second_registration_panics_witness:
  "fst (ConnectViaSSH libs_up conf_example world0)
     = Return (Some \<lparr>DB = \<lparr>gorm_id = 3, Statement_Context = Background\<rparr>,
                     SSHCon = SSHClient 0\<rparr>, None)
   \<and> EvSQLRegister ''postgres+ssh'' \<lparr>client = SSHClient 0\<rparr>
       \<in> set (since world0 (snd (ConnectViaSSH libs_up conf_example world0)))
   \<and> EvSQLRegister ''postgres+ssh'' \<lparr>client = SSHClient 5\<rparr>
       \<in> set (since (snd (ConnectViaSSH libs_up conf_example world0))
                 (snd (ConnectViaSSH libs_up conf_example
                         (snd (ConnectViaSSH libs_up conf_example world0)))))
   \<and> fst (ConnectViaSSH libs_up conf_example (snd (ConnectViaSSH libs_up conf_example world0)))
       = Panic ''sql: Register called twice for driver postgres+ssh''"
proof -
  let ?w' = "snd (ConnectViaSSH libs_up conf_example world0)"
  have a: "key_parse libs_up conf_example = Inr (Signer ''good-key'')"
    by (simp add: call_defs example_defs)
  have b: "tunnel_open libs_up conf_example (Signer ''good-key'') world0
             = (Inr (SSHClient 0),
                log (EvSSHDial ''tcp'' (ssh_addr_of conf_example)
                       (sshConfig_of conf_example (Signer ''good-key''))) world0)"
    by (simp add: call_defs example_defs)
  have c: "dom (drivers ?w') \<subseteq> dom (drivers ?w')"
    by simp
  have d: "tunnel_open libs_up conf_example (Signer ''good-key'') ?w'
             = (Inr (SSHClient 5),
                log (EvSSHDial ''tcp'' (ssh_addr_of conf_example)
                       (sshConfig_of conf_example (Signer ''good-key''))) ?w')"
    by (simp add: first_call_example) (simp add: call_defs libs_up_def)
  show ?thesis
    using second_registration_panics [OF a b c a d] by (simp add: first_call_example)
qed

section \<open>All or nothing\<close>

text \<open>One lemma for each way through \<^verbatim>\<open>ConnectViaSSH\<close>.\<close>

lemma ConnectViaSSH_key_parse_fails:
  "key_parse L conf = Inl err \<Longrightarrow> ConnectViaSSH L conf w = (Return (None, Some err), w)"
  by (simp add: ConnectViaSSH_def)

lemma ConnectViaSSH_tunnel_open_fails:
  "key_parse L conf = Inr signer \<Longrightarrow> tunnel_open L conf signer w = (Inl err, w1) \<Longrightarrow>
     ConnectViaSSH L conf w = (Return (None, Some err), w1)"
  by (simp add: ConnectViaSSH_def expr_defs)

lemma ConnectViaSSH_registration_panics:
  "key_parse L conf = Inr signer \<Longrightarrow> tunnel_open L conf signer w = (Inr sshcon, w1) \<Longrightarrow>
   driver_registration sshcon w1 = (Panic msg, w2) \<Longrightarrow>
     ConnectViaSSH L conf w = (Panic msg, w2)"
  by (simp add: ConnectViaSSH_def expr_defs)

lemma ConnectViaSSH_client_open_fails:
  "key_parse L conf = Inr signer \<Longrightarrow> tunnel_open L conf signer w = (Inr sshcon, w1) \<Longrightarrow>
   driver_registration sshcon w1 = (Return u, w2) \<Longrightarrow>
   client_open L conf w2 = (Inl err, w3) \<Longrightarrow>
     ConnectViaSSH L conf w = (Return (None, Some err), w3)"
  by (simp add: ConnectViaSSH_def expr_defs)

lemma ConnectViaSSH_orm_wrap_fails:
  "key_parse L conf = Inr signer \<Longrightarrow> tunnel_open L conf signer w = (Inr sshcon, w1) \<Longrightarrow>
   driver_registration sshcon w1 = (Return u, w2) \<Longrightarrow>
   client_open L conf w2 = (Inr sqldb, w3) \<Longrightarrow>
   orm_wrap L sqldb w3 = (Inl err, w4) \<Longrightarrow>
     ConnectViaSSH L conf w = (Return (None, Some err), w4)"
  by (simp add: ConnectViaSSH_def expr_defs)

lemma ConnectViaSSH_pool_handle_fails:
  "key_parse L conf = Inr signer \<Longrightarrow> tunnel_open L conf signer w = (Inr sshcon, w1) \<Longrightarrow>
   driver_registration sshcon w1 = (Return u, w2) \<Longrightarrow>
   client_open L conf w2 = (Inr sqldb, w3) \<Longrightarrow>
   orm_wrap L sqldb w3 = (Inr db, w4) \<Longrightarrow>
   pool_handle L db w4 = Inl err \<Longrightarrow>
     ConnectViaSSH L conf w = (Return (None, Some err), w4)"
  by (simp add: ConnectViaSSH_def expr_defs)

lemma ConnectViaSSH_succeeds:
  "key_parse L conf = Inr signer \<Longrightarrow> tunnel_open L conf signer w = (Inr sshcon, w1) \<Longrightarrow>
   driver_registration sshcon w1 = (Return u, w2) \<Longrightarrow>
   client_open L conf w2 = (Inr sqldb, w3) \<Longrightarrow>
   orm_wrap L sqldb w3 = (Inr db, w4) \<Longrightarrow>
   pool_handle L db w4 = Inr sqlDB \<Longrightarrow>
     ConnectViaSSH L conf w =
       (Return (Some \<lparr>DB = db, SSHCon = sshcon\<rparr>, None),
        sql_DB_SetMaxIdleConns sqlDB (ConnectViaSSHConfig.MaxIdleCon conf) w4)"
  by (simp add: ConnectViaSSH_def expr_defs)

lemma ConnectViaSSH_returns:
  assumes "fst (ConnectViaSSH L conf w) = Return (h, e)"
  shows "(h = None \<and> e \<noteq> None) \<or>
         (e = None \<and>
          (\<exists>signer sshcon w1 w2 sqldb w3 db w4 sqlDB.
             key_parse L conf = Inr signer \<and>
             tunnel_open L conf signer w = (Inr sshcon, w1) \<and>
             driver_registration sshcon w1 = (Return (), w2) \<and>
             client_open L conf w2 = (Inr sqldb, w3) \<and>
             orm_wrap L sqldb w3 = (Inr db, w4) \<and>
             pool_handle L db w4 = Inr sqlDB \<and>
             h = Some \<lparr>DB = db, SSHCon = sshcon\<rparr>))"
proof (cases "key_parse L conf")
  case (Inl err)
  then show ?thesis using assms by (auto simp add: ConnectViaSSH_key_parse_fails)
next
  case (Inr signer)
  note kp = this
  obtain r1 w1 where d: "tunnel_open L conf signer w = (r1, w1)"
    by (cases "tunnel_open L conf signer w")
  show ?thesis
  proof (cases r1)
    case (Inl err)
    then show ?thesis using assms kp d by (auto simp add: ConnectViaSSH_tunnel_open_fails)
  next
    case (Inr sshcon)
    note to = d [unfolded this]
    obtain r2 w2 where r: "driver_registration sshcon w1 = (r2, w2)"
      by (cases "driver_registration sshcon w1")
    show ?thesis
    proof (cases r2)
      case (Panic msg)
      then show ?thesis using assms kp to r by (auto simp add: ConnectViaSSH_registration_panics)
    next
      case (Return u)
      note reg = r [unfolded this]
      obtain r3 w3 where o: "client_open L conf w2 = (r3, w3)"
        by (cases "client_open L conf w2")
      show ?thesis
      proof (cases r3)
        case (Inl err)
        then show ?thesis using assms kp to reg o by (auto simp add: ConnectViaSSH_client_open_fails)
      next
        case (Inr sqldb)
        note co = o [unfolded this]
        obtain r4 w4 where g: "orm_wrap L sqldb w3 = (r4, w4)"
          by (cases "orm_wrap L sqldb w3")
        show ?thesis
        proof (cases r4)
          case (Inl err)
          then show ?thesis using assms kp to reg co g
            by (auto simp add: ConnectViaSSH_orm_wrap_fails)
        next
          case (Inr db)
          note ow = g [unfolded this]
          show ?thesis
          proof (cases "pool_handle L db w4")
            case (Inl err)
            then show ?thesis using assms kp to reg co ow
              by (auto simp add: ConnectViaSSH_pool_handle_fails)
          next
            case (Inr sqlDB)
            have "ConnectViaSSH L conf w =
                    (Return (Some \<lparr>DB = db, SSHCon = sshcon\<rparr>, None),
                     sql_DB_SetMaxIdleConns sqlDB (ConnectViaSSHConfig.MaxIdleCon conf) w4)"
              using kp to reg co ow Inr by (rule ConnectViaSSH_succeeds)
            with assms have "e = None" and "h = Some \<lparr>DB = db, SSHCon = sshcon\<rparr>"
              by simp_all
            then show ?thesis using kp to reg co ow Inr by auto
          qed
        qed
      qed
    qed
  qed
qed

lemma world1_eq:
  "world1 =
     \<lparr>drivers = [''postgres'' \<mapsto> DriverOther ''pq'',
                 ''postgres+ssh'' \<mapsto> DriverViaSSH \<lparr>client = SSHClient 0\<rparr>],
      trace = [EvSSHDial ''tcp'' (ssh_addr_of conf_example)
                 (sshConfig_of conf_example (Signer ''good-key'')),
               EvSQLRegister ''postgres+ssh'' \<lparr>client = SSHClient 0\<rparr>,
               EvSQLOpen ''postgres+ssh'' (dsn_of conf_example),
               EvGormOpen (postgres_New (SqlDB 2)) \<lparr>Logger = Silent\<rparr>,
               EvSetMaxIdleConns (SqlDB 3) 10]\<rparr>"
  by (simp add: world1_def first_call_example)

lemma db_down_steps:
  "key_parse libs_db_down conf_example = Inr (Signer ''good-key'')"
  "tunnel_open libs_db_down conf_example (Signer ''good-key'') world0
     = (Inr (SSHClient 0),
        log (EvSSHDial ''tcp'' (ssh_addr_of conf_example)
               (sshConfig_of conf_example (Signer ''good-key''))) world0)"
  "driver_registration (SSHClient 0)
     (log (EvSSHDial ''tcp'' (ssh_addr_of conf_example)
             (sshConfig_of conf_example (Signer ''good-key''))) world0)
     = (Return (), world0
          \<lparr>drivers := [''postgres'' \<mapsto> DriverOther ''pq'',
                       ''postgres+ssh'' \<mapsto> DriverViaSSH \<lparr>client = SSHClient 0\<rparr>],
           trace := [EvSSHDial ''tcp'' (ssh_addr_of conf_example)
                       (sshConfig_of conf_example (Signer ''good-key'')),
                     EvSQLRegister ''postgres+ssh'' \<lparr>client = SSHClient 0\<rparr>]\<rparr>)"
  "client_open libs_db_down conf_example
     (world0
        \<lparr>drivers := [''postgres'' \<mapsto> DriverOther ''pq'',
                     ''postgres+ssh'' \<mapsto> DriverViaSSH \<lparr>client = SSHClient 0\<rparr>],
         trace := [EvSSHDial ''tcp'' (ssh_addr_of conf_example)
                     (sshConfig_of conf_example (Signer ''good-key'')),
                   EvSQLRegister ''postgres+ssh'' \<lparr>client = SSHClient 0\<rparr>]\<rparr>)
     = (Inr (SqlDB 2), world0
          \<lparr>drivers := [''postgres'' \<mapsto> DriverOther ''pq'',
                       ''postgres+ssh'' \<mapsto> DriverViaSSH \<lparr>client = SSHClient 0\<rparr>],
           trace := [EvSSHDial ''tcp'' (ssh_addr_of conf_example)
                       (sshConfig_of conf_example (Signer ''good-key'')),
                     EvSQLRegister ''postgres+ssh'' \<lparr>client = SSHClient 0\<rparr>,
                     EvSQLOpen ''postgres+ssh'' (dsn_of conf_example)]\<rparr>)"
  "orm_wrap libs_db_down (SqlDB 2)
     (world0
        \<lparr>drivers := [''postgres'' \<mapsto> DriverOther ''pq'',
                     ''postgres+ssh'' \<mapsto> DriverViaSSH \<lparr>client = SSHClient 0\<rparr>],
         trace := [EvSSHDial ''tcp'' (ssh_addr_of conf_example)
                     (sshConfig_of conf_example (Signer ''good-key'')),
                   EvSQLRegister ''postgres+ssh'' \<lparr>client = SSHClient 0\<rparr>,
                   EvSQLOpen ''postgres+ssh'' (dsn_of conf_example)]\<rparr>)
     = (Inl (Error ''failed to connect''), world0
          \<lparr>drivers := [''postgres'' \<mapsto> DriverOther ''pq'',
                       ''postgres+ssh'' \<mapsto> DriverViaSSH \<lparr>client = SSHClient 0\<rparr>],
           trace := [EvSSHDial ''tcp'' (ssh_addr_of conf_example)
                       (sshConfig_of conf_example (Signer ''good-key'')),
                     EvSQLRegister ''postgres+ssh'' \<lparr>client = SSHClient 0\<rparr>,
                     EvSQLOpen ''postgres+ssh'' (dsn_of conf_example),
                     EvGormOpen (postgres_New (SqlDB 2)) \<lparr>Logger = Silent\<rparr>]\<rparr>)"
  by (simp_all add: call_defs example_defs)

text \<open>
  C6, as the claim states it, fails at the registration step. In a process where the
  name is already registered, the key parses and the tunnel opens, the registration
  fails, and \<^verbatim>\<open>ConnectViaSSH\<close> does not return a nil handle with an error: it panics.
\<close>

theorem registration_failure_counterexample:
  "key_parse libs_up conf_example = Inr (Signer ''good-key'')
   \<and> fst (tunnel_open libs_up conf_example (Signer ''good-key'') world1) = Inr (SSHClient 5)
   \<and> fst (driver_registration (SSHClient 5)
            (snd (tunnel_open libs_up conf_example (Signer ''good-key'') world1)))
       = Panic ''sql: Register called twice for driver postgres+ssh''
   \<and> fst (ConnectViaSSH libs_up conf_example world1)
       = Panic ''sql: Register called twice for driver postgres+ssh''"
  by (simp add: world1_eq) (simp add: ConnectViaSSH_def call_defs expr_defs example_defs)

text \<open>
  C6, amended. When the key parse, the tunnel open, the database client open, the ORM
  wrap or the pool-handle retrieval fails (the steps before it having succeeded),
  \<^verbatim>\<open>ConnectViaSSH\<close> returns a nil handle with that step's error. When every step
  succeeds it returns the handle made of the ORM handle and the tunnel session, and no
  error. Whenever it returns, it returns either no handle and an error, or a handle and
  no error, and then every step has succeeded.
\<close>

theorem ConnectViaSSH_all_or_nothing:
  "(key_parse L conf = Inl err \<longrightarrow>
      fst (ConnectViaSSH L conf w) = Return (None, Some err))
 \<and> (key_parse L conf = Inr signer \<and> tunnel_open L conf signer w = (Inl err, w1) \<longrightarrow>
      fst (ConnectViaSSH L conf w) = Return (None, Some err))
 \<and> (key_parse L conf = Inr signer \<and> tunnel_open L conf signer w = (Inr sshcon, w1) \<and>
    driver_registration sshcon w1 = (Return (), w2) \<and>
    client_open L conf w2 = (Inl err, w3) \<longrightarrow>
      fst (ConnectViaSSH L conf w) = Return (None, Some err))
 \<and> (key_parse L conf = Inr signer \<and> tunnel_open L conf signer w = (Inr sshcon, w1) \<and>
    driver_registration sshcon w1 = (Return (), w2) \<and>
    client_open L conf w2 = (Inr sqldb, w3) \<and>
    orm_wrap L sqldb w3 = (Inl err, w4) \<longrightarrow>
      fst (ConnectViaSSH L conf w) = Return (None, Some err))
 \<and> (key_parse L conf = Inr signer \<and> tunnel_open L conf signer w = (Inr sshcon, w1) \<and>
    driver_registration sshcon w1 = (Return (), w2) \<and>
    client_open L conf w2 = (Inr sqldb, w3) \<and>
    orm_wrap L sqldb w3 = (Inr db, w4) \<and>
    pool_handle L db w4 = Inl err \<longrightarrow>
      fst (ConnectViaSSH L conf w) = Return (None, Some err))
 \<and> (key_parse L conf = Inr signer \<and> tunnel_open L conf signer w = (Inr sshcon, w1) \<and>
    driver_registration sshcon w1 = (Return (), w2) \<and>
    client_open L conf w2 = (Inr sqldb, w3) \<and>
    orm_wrap L sqldb w3 = (Inr db, w4) \<and>
    pool_handle L db w4 = Inr sqlDB \<longrightarrow>
      fst (ConnectViaSSH L conf w) = Return (Some \<lparr>DB = db, SSHCon = sshcon\<rparr>, None))
 \<and> (fst (ConnectViaSSH L conf w) = Return (h, e) \<longrightarrow>
      (h = None \<and> e \<noteq> None) \<or>
      (e = None \<and>
       (\<exists>signer sshcon w1 w2 sqldb w3 db w4 sqlDB.
          key_parse L conf = Inr signer \<and>
          tunnel_open L conf signer w = (Inr sshcon, w1) \<and>
          driver_registration sshcon w1 = (Return (), w2) \<and>
          client_open L conf w2 = (Inr sqldb, w3) \<and>
          orm_wrap L sqldb w3 = (Inr db, w4) \<and>
          pool_handle L db w4 = Inr sqlDB \<and>
          h = Some \<lparr>DB = db, SSHCon = sshcon\<rparr>)))"
proof (intro conjI impI)
  assume "fst (ConnectViaSSH L conf w) = Return (h, e)"
  then show "(h = None \<and> e \<noteq> None) \<or>
      (e = None \<and>
       (\<exists>signer sshcon w1 w2 sqldb w3 db w4 sqlDB.
          key_parse L conf = Inr signer \<and>
          tunnel_open L conf signer w = (Inr sshcon, w1) \<and>
          driver_registration sshcon w1 = (Return (), w2) \<and>
          client_open L conf w2 = (Inr sqldb, w3) \<and>
          orm_wrap L sqldb w3 = (Inr db, w4) \<and>
          pool_handle L db w4 = Inr sqlDB \<and>
          h = Some \<lparr>DB = db, SSHCon = sshcon\<rparr>))"
    by (rule ConnectViaSSH_returns)
qed (simp_all add: ConnectViaSSH_key_parse_fails ConnectViaSSH_tunnel_open_fails
       ConnectViaSSH_client_open_fails ConnectViaSSH_orm_wrap_fails
       ConnectViaSSH_pool_handle_fails ConnectViaSSH_succeeds)


theorem ConnectViaSSH_all_or_nothing_witness:
  "fst (ConnectViaSSH libs_up conf_bad_key world0)
     = Return (None, Some (Error ''ssh: no key found''))
   \<and> fst (ConnectViaSSH libs_db_down conf_example world0)
     = Return (None, Some (Error ''failed to connect''))
   \<and> (\<exists>signer sshcon w1 w2 sqldb w3 db w4 sqlDB.
          key_parse libs_up conf_example = Inr signer \<and>
          tunnel_open libs_up conf_example signer world0 = (Inr sshcon, w1) \<and>
          driver_registration sshcon w1 = (Return (), w2) \<and>
          client_open libs_up conf_example w2 = (Inr sqldb, w3) \<and>
          orm_wrap libs_up sqldb w3 = (Inr db, w4) \<and>
          pool_handle libs_up db w4 = Inr sqlDB \<and>
          Some \<lparr>DB = \<lparr>gorm_id = 3, Statement_Context = Background\<rparr>,
                 SSHCon = SSHClient 0\<rparr> = Some \<lparr>DB = db, SSHCon = sshcon\<rparr>)"
proof -
  have a: "key_parse libs_up conf_bad_key = Inl (Error ''ssh: no key found'')"
    by (simp add: call_defs example_defs)
  have "fst (ConnectViaSSH libs_up conf_bad_key world0)
          = Return (None, Some (Error ''ssh: no key found''))"
    using a ConnectViaSSH_all_or_nothing
            [where L = libs_up and conf = conf_bad_key and w = world0
               and err = "Error ''ssh: no key found''"]
    by simp
  moreover have "fst (ConnectViaSSH libs_db_down conf_example world0)
          = Return (None, Some (Error ''failed to connect''))"
    using db_down_steps
          ConnectViaSSH_all_or_nothing
            [where L = libs_db_down and conf = conf_example and w = world0
               and err = "Error ''failed to connect''" and signer = "Signer ''good-key''"
               and sshcon = "SSHClient 0" and sqldb = "SqlDB 2"
               and ?w1.0 = "log (EvSSHDial ''tcp'' (ssh_addr_of conf_example)
                              (sshConfig_of conf_example (Signer ''good-key''))) world0"
               and ?w2.0 = "world0
                   \<lparr>drivers := [''postgres'' \<mapsto> DriverOther ''pq'',
                       ''postgres+ssh'' \<mapsto> DriverViaSSH \<lparr>client = SSHClient 0\<rparr>],
                    trace := [EvSSHDial ''tcp'' (ssh_addr_of conf_example)
                       (sshConfig_of conf_example (Signer ''good-key'')),
                     EvSQLRegister ''postgres+ssh'' \<lparr>client = SSHClient 0\<rparr>]\<rparr>"
               and ?w3.0 = "world0
                   \<lparr>drivers := [''postgres'' \<mapsto> DriverOther ''pq'',
                       ''postgres+ssh'' \<mapsto> DriverViaSSH \<lparr>client = SSHClient 0\<rparr>],
                    trace := [EvSSHDial ''tcp'' (ssh_addr_of conf_example)
                       (sshConfig_of conf_example (Signer ''good-key'')),
                     EvSQLRegister ''postgres+ssh'' \<lparr>client = SSHClient 0\<rparr>,
                     EvSQLOpen ''postgres+ssh'' (dsn_of conf_example)]\<rparr>"
               and ?w4.0 = "world0
                   \<lparr>drivers := [''postgres'' \<mapsto> DriverOther ''pq'',
                       ''postgres+ssh'' \<mapsto> DriverViaSSH \<lparr>client = SSHClient 0\<rparr>],
                    trace := [EvSSHDial ''tcp'' (ssh_addr_of conf_example)
                       (sshConfig_of conf_example (Signer ''good-key'')),
                     EvSQLRegister ''postgres+ssh'' \<lparr>client = SSHClient 0\<rparr>,
                     EvSQLOpen ''postgres+ssh'' (dsn_of conf_example),
                     EvGormOpen (postgres_New (SqlDB 2)) \<lparr>Logger = Silent\<rparr>]\<rparr>"]
    by simp
  moreover have "\<exists>signer sshcon w1 w2 sqldb w3 db w4 sqlDB.
          key_parse libs_up conf_example = Inr signer \<and>
          tunnel_open libs_up conf_example signer world0 = (Inr sshcon, w1) \<and>
          driver_registration sshcon w1 = (Return (), w2) \<and>
          client_open libs_up conf_example w2 = (Inr sqldb, w3) \<and>
          orm_wrap libs_up sqldb w3 = (Inr db, w4) \<and>
          pool_handle libs_up db w4 = Inr sqlDB \<and>
          Some \<lparr>DB = \<lparr>gorm_id = 3, Statement_Context = Background\<rparr>,
                 SSHCon = SSHClient 0\<rparr> = Some \<lparr>DB = db, SSHCon = sshcon\<rparr>"
    using first_call_example
          ConnectViaSSH_all_or_nothing
            [where L = libs_up and conf = conf_example and w = world0 and e = None
               and h = "Some \<lparr>DB = \<lparr>gorm_id = 3, Statement_Context = Background\<rparr>,
                              SSHCon = SSHClient 0\<rparr>"]
    by simp
  ultimately show ?thesis by simp
qed

section \<open>The tunnel after a failed construction\<close>

text \<open>
  C10. When the tunnel has been opened and the driver registered, and then the database
  client open, the ORM wrap or the pool-handle retrieval fails, \<^verbatim>\<open>ConnectViaSSH\<close>
  returns a nil handle with that error; the call has dialled the tunnel and has closed no
  tunnel session, so the session stays open and the caller holds no reference to it.
\<close>

theorem tunnel_left_open_on_later_failure:
  assumes "key_parse L conf = Inr signer"
      and "tunnel_open L conf signer w = (Inr sshcon, w1)"
      and "driver_registration sshcon w1 = (Return (), w2)"
      and "client_open L conf w2 = (Inl err, w3)
           \<or> (client_open L conf w2 = (Inr sqldb, w3) \<and> orm_wrap L sqldb w3 = (Inl err, w4))
           \<or> (client_open L conf w2 = (Inr sqldb, w3) \<and> orm_wrap L sqldb w3 = (Inr db, w4)
                \<and> pool_handle L db w4 = Inl err)"
  shows "fst (ConnectViaSSH L conf w) = Return (None, Some err)
       \<and> EvSSHDial ''tcp'' (ssh_addr_of conf) (sshConfig_of conf signer)
           \<in> set (since w (snd (ConnectViaSSH L conf w)))
       \<and> (\<forall>c. EvSSHClose c \<notin> set (since w (snd (ConnectViaSSH L conf w))))"
  using assms
  by (auto simp: ConnectViaSSH_def call_defs expr_defs since_def Let_def
           split: sum.splits option.splits)

theorem tunnel_left_open_on_later_failure_witness:
  "fst (ConnectViaSSH libs_db_down conf_example world0)
     = Return (None, Some (Error ''failed to connect''))
   \<and> EvSSHDial ''tcp'' (ssh_addr_of conf_example)
        (sshConfig_of conf_example (Signer ''good-key''))
       \<in> set (since world0 (snd (ConnectViaSSH libs_db_down conf_example world0)))
   \<and> (\<forall>c. EvSSHClose c
         \<notin> set (since world0 (snd (ConnectViaSSH libs_db_down conf_example world0))))"
  using tunnel_left_open_on_later_failure
          [OF db_down_steps(1) db_down_steps(2) db_down_steps(3),
           where err = "Error ''failed to connect''" and sqldb = "SqlDB 2"
             and ?w3.0 = "world0
                   \<lparr>drivers := [''postgres'' \<mapsto> DriverOther ''pq'',
                       ''postgres+ssh'' \<mapsto> DriverViaSSH \<lparr>client = SSHClient 0\<rparr>],
                    trace := [EvSSHDial ''tcp'' (ssh_addr_of conf_example)
                       (sshConfig_of conf_example (Signer ''good-key'')),
                     EvSQLRegister ''postgres+ssh'' \<lparr>client = SSHClient 0\<rparr>,
                     EvSQLOpen ''postgres+ssh'' (dsn_of conf_example)]\<rparr>"
             and ?w4.0 = "world0
                   \<lparr>drivers := [''postgres'' \<mapsto> DriverOther ''pq'',
                       ''postgres+ssh'' \<mapsto> DriverViaSSH \<lparr>client = SSHClient 0\<rparr>],
                    trace := [EvSSHDial ''tcp'' (ssh_addr_of conf_example)
                       (sshConfig_of conf_example (Signer ''good-key'')),
                     EvSQLRegister ''postgres+ssh'' \<lparr>client = SSHClient 0\<rparr>,
                     EvSQLOpen ''postgres+ssh'' (dsn_of conf_example),
                     EvGormOpen (postgres_New (SqlDB 2)) \<lparr>Logger = Silent\<rparr>]\<rparr>"]
        db_down_steps(4) db_down_steps(5)
  by simp


section \<open>The health check\<close>

text \<open>
  The context given to \<^verbatim>\<open>Ping\<close> reaches \<^verbatim>\<open>WithContext\<close> only; the health check itself
  runs under the background context. The tunnel session field plays no part.
\<close>

lemma Ping_pings_in_background:
  "pool_handle L (WithContext (PGViaSSH.DB pg) ctx) w = Inr sqlDB \<Longrightarrow>
     PGViaSSH_Ping L pg ctx w = sql_DB_PingContext L sqlDB Background w"
  by (simp add: PGViaSSH_Ping_def sql_DB_Ping_def sql_DB_PingContext_def split: option.splits)

lemma Ping_leaves_tunnel_alone:
  "PGViaSSH_Ping L (pg\<lparr>SSHCon := c\<rparr>) ctx w = PGViaSSH_Ping L pg ctx w"
  by (simp add: PGViaSSH_Ping_def)

text \<open>
  C7 at a cancelled context. The pool's health check, asked under this context, reports
  the cancellation; \<^verbatim>\<open>Ping\<close> with the same context reports success, and the one call
  it makes is the health check under the background context.
\<close>

theorem Ping_ignores_cancelled_context:
  "Context_Err ctx_cancelled = Some (Error ''context canceled'')
   \<and> pool_handle libs_up (WithContext (PGViaSSH.DB pg_example) ctx_cancelled) world1
       = Inr (SqlDB 3)
   \<and> fst (sql_DB_PingContext libs_up (SqlDB 3) ctx_cancelled world1)
       = Some (Error ''context canceled'')
   \<and> PGViaSSH_Ping libs_up pg_example ctx_cancelled world1
       = (None, log (EvPingContext (SqlDB 3) Background) world1)"
  by (simp add: PGViaSSH_Ping_def call_defs libs_up_def pg_example_def ctx_cancelled_def
        WithContext_def)

section \<open>The pool ceilings of the direct path\<close>

text \<open>\<^verbatim>\<open>Connect\<close> never calls \<^verbatim>\<open>SetMaxOpenConns\<close>.\<close>

lemma Connect_never_sets_max_open:
  "EvSetMaxOpenConns db n \<notin> set (since w (snd (Connect L conf w)))"
  by (auto simp: Connect_def call_defs since_def Let_def split: sum.splits)

text \<open>
  C8 at the configuration of the package's documentation. \<^verbatim>\<open>ConnectConfig\<close> has an idle
  ceiling and no open ceiling; a successful \<^verbatim>\<open>Connect\<close> opens the ORM handle and applies
  the idle ceiling, and makes no other call.
\<close>

theorem Connect_applies_idle_ceiling_only:
  "Connect libs_up conf_direct world0 =
     ((Some \<lparr>PG.DB = \<lparr>gorm_id = 0, Statement_Context = Background\<rparr>\<rparr>, None),
      world0\<lparr>trace :=
        [EvGormOpen
           (postgres_Open
              ''host=localhost port=5432 user=postgres password=your_password dbname=your_database application_name=xl_pgclient TimeZone=UTC'')
           \<lparr>Logger = Silent\<rparr>,
         EvSetMaxIdleConns (SqlDB 0) 10]\<rparr>)"
  by (simp add: Connect_def call_defs example_defs Let_def fmt_d_def fmt_nat.simps)


end
